theory Spec2Isabelle
  imports Complex_Main
begin

section \<open>JavaScript strings and numbers\<close>

text \<open>
  A JavaScript string is a sequence of UTF-16 code units; a code unit is modelled by its
  number. Timestamps (\<^verbatim>\<open>Date.now()\<close>) and counters are integral JavaScript numbers,
  modelled as \<open>int\<close>.
\<close>

type_synonym js_string = "nat list"

text \<open>A source literal: the code units of an ASCII string.\<close>

definition js :: "string \<Rightarrow> js_string" where
  "js s = map of_char s"

text \<open>
  \<^verbatim>\<open>String.prototype.trim\<close> removes WhiteSpace and LineTerminator code units from both ends:
  TAB, LF, VT, FF, CR, SP, NBSP, U+1680, U+2000..U+200A, LS, PS, U+202F, U+205F, U+3000 and
  U+FEFF.
\<close>

definition isWhiteSpace :: "nat \<Rightarrow> bool" where
  "isWhiteSpace c \<longleftrightarrow>
     c \<in> {9, 10, 11, 12, 13, 32, 160, 5760, 8232, 8233, 8239, 8287, 12288, 65279}
     \<or> (8192 \<le> c \<and> c \<le> 8202)"

definition trim :: "js_string \<Rightarrow> js_string" where
  "trim s = rev (dropWhile isWhiteSpace (rev (dropWhile isWhiteSpace s)))"

text \<open>
  \<^verbatim>\<open>s.padStart(targetLength, fillString)\<close>: the fill string is repeated and cut to the
  missing length; a string that is long enough, or an empty fill, leaves \<open>s\<close> as it is.
\<close>

definition padStart :: "nat \<Rightarrow> js_string \<Rightarrow> js_string \<Rightarrow> js_string" where
  "padStart targetLength fillString s =
     (if targetLength \<le> length s \<or> fillString = [] then s
      else take (targetLength - length s)
             (concat (replicate (targetLength - length s) fillString)) @ s)"

text \<open>The decimal digits of a natural number, most significant first, no leading zero.\<close>

fun decimal :: "nat \<Rightarrow> js_string" where
  "decimal n = (if n < 10 then [48 + n] else decimal (n div 10) @ [48 + n mod 10])"

declare decimal.simps [simp del]

text \<open>
  \<^verbatim>\<open>Number.prototype.toString()\<close> on an integral number (below \<open>10^21\<close> in absolute
  value, where JavaScript still prints plain decimal digits): a minus sign for a negative
  number, then the digits.
\<close>

definition toString :: "int \<Rightarrow> js_string" where
  "toString n = (if n < 0 then 45 # decimal (nat (- n)) else decimal (nat n))"

text \<open>
  The remainder operator \<^verbatim>\<open>a % b\<close> of JavaScript truncates: the result has the sign of
  the dividend.
\<close>

definition js_rem :: "int \<Rightarrow> int \<Rightarrow> int" where
  "js_rem a b = sgn a * (\<bar>a\<bar> mod \<bar>b\<bar>)"

text \<open>
  \<^verbatim>\<open>Math.ceil(a / b)\<close> for integral \<open>a\<close> and positive integral \<open>b\<close>, in integer
  arithmetic.
\<close>

definition ceil_div :: "int \<Rightarrow> int \<Rightarrow> int" where
  "ceil_div a b = - ((- a) div b)"

section \<open>The OTP manager (src/services/otpManager.ts)\<close>

record OtpRecord =
  code :: js_string
  createdAt :: int
  attempts :: int

datatype reason = Expired | Incorrect | Max_attempts | No_otp

datatype OtpValidationResult = Success | Failure reason

text \<open>The private \<^verbatim>\<open>Map<string, OtpRecord>\<close>, keyed by email.\<close>

type_synonym otp_store = "js_string \<rightharpoonup> OtpRecord"

text \<open>The store of a new manager: \<^verbatim>\<open>new Map()\<close>.\<close>

definition new_Map :: otp_store where
  "new_Map = Map.empty"

definition OTP_LENGTH :: nat where
  "OTP_LENGTH = 6"

definition OTP_EXPIRY_MS :: int where
  "OTP_EXPIRY_MS = 60 * 1000"

definition MAX_ATTEMPTS :: int where
  "MAX_ATTEMPTS = 3"

text \<open>
  \<^verbatim>\<open>createRandomCode\<close>. The argument \<open>raw\<close> is the value of
  \<^verbatim>\<open>Math.floor(Math.random() * Math.pow(10, OTP_LENGTH))\<close>, a whole number with
  \<open>0 \<le> raw < 10^6\<close>; the random draw is the only input of the function.
\<close>

definition createRandomCode :: "nat \<Rightarrow> js_string" where
  "createRandomCode raw = padStart OTP_LENGTH (js ''0'') (toString (int raw))"

text \<open>
  Every operation takes the store and returns it, updated or not, beside its result;
  \<open>now\<close> is the value \<^verbatim>\<open>Date.now()\<close> returns during the call.
\<close>

definition generateOtp ::
  "otp_store \<Rightarrow> js_string \<Rightarrow> nat \<Rightarrow> int \<Rightarrow> js_string \<times> otp_store" where
  "generateOtp store email raw now =
     (let c = createRandomCode raw;
          r = \<lparr>code = c, createdAt = now, attempts = 0\<rparr>
      in (c, store(email \<mapsto> r)))"

definition validateOtp ::
  "otp_store \<Rightarrow> js_string \<Rightarrow> js_string \<Rightarrow> int \<Rightarrow> OtpValidationResult \<times> otp_store" where
  "validateOtp store email cand now =
     (case store email of
        None \<Rightarrow> (Failure No_otp, store)
      | Some r \<Rightarrow>
          if now - createdAt r > OTP_EXPIRY_MS then (Failure Expired, store(email := None))
          else if attempts r \<ge> MAX_ATTEMPTS then (Failure Max_attempts, store)
          else if code r \<noteq> trim cand then
            (let r' = r\<lparr>attempts := attempts r + 1\<rparr>;
                 store' = store(email \<mapsto> r')
             in if attempts r' \<ge> MAX_ATTEMPTS then (Failure Max_attempts, store')
                else (Failure Incorrect, store'))
          else (Success, store(email := None)))"

definition getRemainingSeconds :: "otp_store \<Rightarrow> js_string \<Rightarrow> int \<Rightarrow> int \<times> otp_store" where
  "getRemainingSeconds store email now =
     (case store email of
        None \<Rightarrow> (0, store)
      | Some r \<Rightarrow>
          (let elapsed_ms = now - createdAt r;
               remaining = OTP_EXPIRY_MS - elapsed_ms
           in (if remaining > 0 then ceil_div remaining 1000 else 0, store)))"

definition getRemainingAttempts :: "otp_store \<Rightarrow> js_string \<Rightarrow> int \<times> otp_store" where
  "getRemainingAttempts store email =
     (case store email of
        None \<Rightarrow> (0, store)
      | Some r \<Rightarrow> (max 0 (MAX_ATTEMPTS - attempts r), store))"

definition clearOtp :: "otp_store \<Rightarrow> js_string \<Rightarrow> otp_store" where
  "clearOtp store email = store(email := None)"

text \<open>
  The sequence of public calls a client can make, for stating what every call preserves.
\<close>

datatype otp_call =
    GenerateOtp js_string nat int
  | ValidateOtp js_string js_string int
  | GetRemainingSeconds js_string int
  | GetRemainingAttempts js_string
  | ClearOtp js_string

fun call :: "otp_call \<Rightarrow> otp_store \<Rightarrow> otp_store" where
  "call (GenerateOtp email raw now) store = snd (generateOtp store email raw now)"
| "call (ValidateOtp email cand now) store = snd (validateOtp store email cand now)"
| "call (GetRemainingSeconds email now) store = snd (getRemainingSeconds store email now)"
| "call (GetRemainingAttempts email) store = snd (getRemainingAttempts store email)"
| "call (ClearOtp email) store = clearOtp store email"

definition attempts_bounded :: "otp_store \<Rightarrow> bool" where
  "attempts_bounded store \<longleftrightarrow> (\<forall>r \<in> ran store. 0 \<le> attempts r \<and> attempts r \<le> MAX_ATTEMPTS)"

section \<open>The session timer (src/hooks/useSessionTimer.ts)\<close>

definition formatElapsed :: "int \<Rightarrow> js_string" where
  "formatElapsed ms =
     (let totalSeconds = ms div 1000;
          minutes = totalSeconds div 60;
          seconds = js_rem totalSeconds 60
      in padStart 2 (js ''0'') (toString minutes) @ js '':''
         @ padStart 2 (js ''0'') (toString seconds))"

text \<open>
  The requests the hook sends to the key-value storage through the analytics service
  (\<^verbatim>\<open>saveSessionStart\<close>, \<^verbatim>\<open>clearSession\<close>). They are asynchronous and their failure is
  only logged, so the hook's state depends on none of their results: the model records the
  requests issued, oldest first.
\<close>

datatype storage_call = SetItem js_string js_string | RemoveItem js_string

definition SESSION_KEY :: js_string where
  "SESSION_KEY = js ''@SecureOTP:session_start''"

text \<open>
  The state of one mounted hook and of the host around it: the \<open>elapsed\<close> state variable,
  the two refs (\<open>None\<close> is \<^verbatim>\<open>null\<close>), the ids of the interval tasks the host has
  scheduled, the last timer id the host handed out, and the storage requests issued.
\<close>

record timer =
  elapsed :: js_string
  sessionStartRef :: "int option"
  intervalRef :: "nat option"
  scheduled :: "nat list"
  last_id :: nat
  storage_calls :: "storage_call list"

text \<open>
  \<^verbatim>\<open>setInterval\<close> schedules a periodic task and returns its id, a positive integer the
  host has not used before; \<^verbatim>\<open>clearInterval\<close> cancels the task of that id.
\<close>

definition setInterval :: "timer \<Rightarrow> nat \<times> timer" where
  "setInterval t =
     (let h = Suc (last_id t) in (h, t\<lparr>scheduled := scheduled t @ [h], last_id := h\<rparr>))"

definition clearInterval :: "nat \<Rightarrow> timer \<Rightarrow> timer" where
  "clearInterval h t = t\<lparr>scheduled := removeAll h (scheduled t)\<rparr>"

text \<open>The truthiness test \<^verbatim>\<open>if (intervalRef.current)\<close>: neither \<^verbatim>\<open>null\<close> nor \<open>0\<close>.\<close>

definition truthy :: "nat option \<Rightarrow> bool" where
  "truthy ref = (case ref of None \<Rightarrow> False | Some h \<Rightarrow> h \<noteq> 0)"

definition saveSessionStart :: "int \<Rightarrow> timer \<Rightarrow> timer" where
  "saveSessionStart timestamp t =
     t\<lparr>storage_calls := storage_calls t @ [SetItem SESSION_KEY (toString timestamp)]\<rparr>"

definition clearSession :: "timer \<Rightarrow> timer" where
  "clearSession t = t\<lparr>storage_calls := storage_calls t @ [RemoveItem SESSION_KEY]\<rparr>"

definition tick :: "int \<Rightarrow> timer \<Rightarrow> timer" where
  "tick now t =
     (case sessionStartRef t of
        None \<Rightarrow> t
      | Some start \<Rightarrow> t\<lparr>elapsed := formatElapsed (now - start)\<rparr>)"

text \<open>
  \<^verbatim>\<open>startTimer(persistedStart?)\<close>: \<open>now\<close> is the clock reading of
  \<^verbatim>\<open>persistedStart ?? Date.now()\<close>, \<open>now_tick\<close> the one of the immediate first tick.
\<close>

definition startTimer :: "int option \<Rightarrow> int \<Rightarrow> int \<Rightarrow> timer \<Rightarrow> timer" where
  "startTimer persistedStart now now_tick t =
     (if truthy (intervalRef t) then t
      else
        (let start = (case persistedStart of Some p \<Rightarrow> p | None \<Rightarrow> now);
             t1 = t\<lparr>sessionStartRef := Some start\<rparr>;
             t2 = saveSessionStart start t1;
             t3 = tick now_tick t2;
             (h, t4) = setInterval t3
         in t4\<lparr>intervalRef := Some h\<rparr>))"

definition stopTimer :: "timer \<Rightarrow> timer" where
  "stopTimer t =
     (let t1 = (case intervalRef t of
                  None \<Rightarrow> t
                | Some h \<Rightarrow> if h \<noteq> 0 then (clearInterval h t)\<lparr>intervalRef := None\<rparr> else t);
          t2 = t1\<lparr>sessionStartRef := None\<rparr>;
          t3 = t2\<lparr>elapsed := js ''00:00''\<rparr>
      in clearSession t3)"

text \<open>The hook as it is mounted: display \<^verbatim>\<open>'00:00'\<close>, both refs \<^verbatim>\<open>null\<close>.\<close>

definition mounted :: timer where
  "mounted = \<lparr>elapsed = js ''00:00'', sessionStartRef = None, intervalRef = None,
              scheduled = [], last_id = 0, storage_calls = []\<rparr>"

text \<open>
  The display format in the words of the specification: a number below one hundred as two
  decimal digits.
\<close>

definition two_digits :: "nat \<Rightarrow> js_string" where
  "two_digits n = [48 + n div 10, 48 + n mod 10]"

text \<open>
  The display of \<open>ms\<close> elapsed milliseconds, \<open>ms \<ge> 0\<close>: minutes and seconds of the whole
  seconds elapsed, the minutes with all their digits once they need more than two.
\<close>

definition mm_ss :: "int \<Rightarrow> js_string" where
  "mm_ss ms =
     (let secs = nat (ms div 1000); m = secs div 60; s = secs mod 60
      in (if m < 100 then two_digits m else decimal m) @ js '':'' @ two_digits s)"

section \<open>Validation order\<close>

lemma validateOtp_expired:
  assumes "store email = Some r" and "now - createdAt r > OTP_EXPIRY_MS"
  shows "validateOtp store email cand now = (Failure Expired, store(email := None))"
  using assms by (simp add: validateOtp_def)

lemma validateOtp_locked:
  assumes "store email = Some r" and "now - createdAt r \<le> OTP_EXPIRY_MS"
    and "attempts r \<ge> MAX_ATTEMPTS"
  shows "validateOtp store email cand now = (Failure Max_attempts, store)"
  using assms by (simp add: validateOtp_def)

lemma validateOtp_absent:
  assumes "store email = None"
  shows "validateOtp store email cand now = (Failure No_otp, store)"
  using assms by (simp add: validateOtp_def)

text \<open>
  C1. A record that is locked (\<open>attempts \<ge> 3\<close>) and, at time \<open>now\<close>, also expired
  (more than 60,000 ms old) is reported as expired and deleted, whatever the candidate. At
  a time \<open>early\<close> inside the window the same locked record is reported as
  \<open>max_attempts\<close> and left in place, even for the stored code itself: expiry is tested
  before the attempt count, and the attempt count before the code comparison.
\<close>

theorem validateOtp_first_check_wins:
  assumes "store email = Some r"
    and "attempts r \<ge> 3"
    and "now - createdAt r > 60000"
    and "early - createdAt r \<le> 60000"
  shows "validateOtp store email cand now = (Failure Expired, store(email := None))
       \<and> validateOtp store email (code r) early = (Failure Max_attempts, store)
       \<and> validateOtp store email cand early = (Failure Max_attempts, store)"
  using assms
  by (simp add: validateOtp_expired validateOtp_locked OTP_EXPIRY_MS_def MAX_ATTEMPTS_def)

theorem validateOtp_first_check_wins_witness:
  "validateOtp (new_Map(js ''a@x.com'' \<mapsto> \<lparr>code = js ''123456'', createdAt = 1000, attempts = 3\<rparr>))
     (js ''a@x.com'') (js ''123456'') 61001 = (Failure Expired, new_Map)
   \<and> validateOtp (new_Map(js ''a@x.com'' \<mapsto> \<lparr>code = js ''123456'', createdAt = 1000, attempts = 3\<rparr>))
     (js ''a@x.com'') (js ''123456'') 61000
     = (Failure Max_attempts,
        (new_Map(js ''a@x.com'' \<mapsto> \<lparr>code = js ''123456'', createdAt = 1000, attempts = 3\<rparr>)))"
  using validateOtp_first_check_wins
    [of "new_Map(js ''a@x.com'' \<mapsto> \<lparr>code = js ''123456'', createdAt = 1000, attempts = 3\<rparr>)"
        "js ''a@x.com''" "\<lparr>code = js ''123456'', createdAt = 1000, attempts = 3\<rparr>"
        61001 61000 "js ''123456''"]
  by (simp add: new_Map_def)

section \<open>Generated codes\<close>

lemma decimal_digits: "c \<in> set (decimal n) \<Longrightarrow> 48 \<le> c \<and> c \<le> 57"
proof (induction n rule: decimal.induct)
  case (1 n)
  show ?case
  proof (cases "n < 10")
    case True
    with "1.prems" show ?thesis by (simp add: decimal.simps [of n])
  next
    case False
    with "1.prems" "1.IH" show ?thesis
      by (auto simp add: decimal.simps [of n])
  qed
qed

lemma decimal_nonempty: "decimal n \<noteq> []"
  by (subst decimal.simps) simp

lemma createRandomCode_digits: "c \<in> set (createRandomCode raw) \<Longrightarrow> 48 \<le> c \<and> c \<le> 57"
  by (auto simp add: createRandomCode_def padStart_def toString_def js_def
      dest: decimal_digits in_set_takeD split: if_splits)

lemma createRandomCode_nonempty: "createRandomCode raw \<noteq> []"
  by (simp add: createRandomCode_def padStart_def toString_def decimal_nonempty)

lemma digit_not_space: "48 \<le> c \<Longrightarrow> c \<le> 57 \<Longrightarrow> \<not> isWhiteSpace c"
  by (auto simp add: isWhiteSpace_def)

lemma dropWhile_none: "\<forall>c \<in> set xs. \<not> P c \<Longrightarrow> dropWhile P xs = xs"
  by (cases xs) auto

lemma trim_no_space:
  assumes "\<forall>c \<in> set s. \<not> isWhiteSpace c"
  shows "trim s = s"
proof -
  from assms have "\<forall>c \<in> set (rev s). \<not> isWhiteSpace c"
    by simp
  then have "dropWhile isWhiteSpace (rev s) = rev s"
    by (rule dropWhile_none)
  with assms show ?thesis
    by (simp add: trim_def dropWhile_none)
qed

lemma trim_createRandomCode: "trim (createRandomCode raw) = createRandomCode raw"
  by (rule trim_no_space) (auto dest: createRandomCode_digits digit_not_space)

section \<open>Attempts and single use\<close>

lemma validateOtp_mismatch:
  assumes "store email = Some r" and "now - createdAt r \<le> OTP_EXPIRY_MS"
    and "attempts r < MAX_ATTEMPTS" and "code r \<noteq> trim cand"
  shows "validateOtp store email cand now =
           (Failure (if attempts r + 1 \<ge> MAX_ATTEMPTS then Max_attempts else Incorrect),
            store(email \<mapsto> r\<lparr>attempts := attempts r + 1\<rparr>))"
  using assms by (simp add: validateOtp_def Let_def)

lemma validateOtp_match:
  assumes "store email = Some r" and "now - createdAt r \<le> OTP_EXPIRY_MS"
    and "attempts r < MAX_ATTEMPTS" and "code r = trim cand"
  shows "validateOtp store email cand now = (Success, store(email := None))"
  using assms by (simp add: validateOtp_def)

lemma generateOtp_eq:
  "generateOtp s0 email raw t0 =
     (createRandomCode raw,
      s0(email \<mapsto> \<lparr>code = createRandomCode raw, createdAt = t0, attempts = 0\<rparr>))"
  by (simp add: generateOtp_def Let_def)

text \<open>
  C2. On a freshly generated record, validated inside the expiry window, three wrong
  candidates are answered \<open>incorrect\<close>, \<open>incorrect\<close>, \<open>max_attempts\<close>, the counter going
  from 0 to 3; a fourth wrong candidate is answered \<open>max_attempts\<close> again and the record
  keeps \<open>attempts = 3\<close>.
\<close>

theorem three_wrong_codes_lock:
  assumes "generateOtp s0 email raw t0 = (c, s)"
    and "trim c1 \<noteq> c" and "trim c2 \<noteq> c" and "trim c3 \<noteq> c" and "trim c4 \<noteq> c"
    and "t1 - t0 \<le> 60000" and "t2 - t0 \<le> 60000" and "t3 - t0 \<le> 60000"
    and "t4 - t0 \<le> 60000"
  shows "validateOtp s email c1 t1 =
           (Failure Incorrect, s(email \<mapsto> \<lparr>code = c, createdAt = t0, attempts = 1\<rparr>))
       \<and> validateOtp (s(email \<mapsto> \<lparr>code = c, createdAt = t0, attempts = 1\<rparr>)) email c2 t2 =
           (Failure Incorrect, s(email \<mapsto> \<lparr>code = c, createdAt = t0, attempts = 2\<rparr>))
       \<and> validateOtp (s(email \<mapsto> \<lparr>code = c, createdAt = t0, attempts = 2\<rparr>)) email c3 t3 =
           (Failure Max_attempts, s(email \<mapsto> \<lparr>code = c, createdAt = t0, attempts = 3\<rparr>))
       \<and> validateOtp (s(email \<mapsto> \<lparr>code = c, createdAt = t0, attempts = 3\<rparr>)) email c4 t4 =
           (Failure Max_attempts, s(email \<mapsto> \<lparr>code = c, createdAt = t0, attempts = 3\<rparr>))"
proof -
  from assms(1) have s: "s = s0(email \<mapsto> \<lparr>code = c, createdAt = t0, attempts = 0\<rparr>)"
    by (auto simp add: generateOtp_eq)
  have first: "validateOtp s email c1 t1 =
      (Failure Incorrect, s(email \<mapsto> \<lparr>code = c, createdAt = t0, attempts = 1\<rparr>))"
    using assms(2,6) unfolding s
    by (subst validateOtp_mismatch [where r = "\<lparr>code = c, createdAt = t0, attempts = 0\<rparr>"])
      (auto simp add: OTP_EXPIRY_MS_def MAX_ATTEMPTS_def)
  have second: "validateOtp (s(email \<mapsto> \<lparr>code = c, createdAt = t0, attempts = 1\<rparr>)) email c2 t2 =
      (Failure Incorrect, s(email \<mapsto> \<lparr>code = c, createdAt = t0, attempts = 2\<rparr>))"
    using assms(3,7)
    by (subst validateOtp_mismatch [where r = "\<lparr>code = c, createdAt = t0, attempts = 1\<rparr>"])
      (auto simp add: OTP_EXPIRY_MS_def MAX_ATTEMPTS_def)
  have third: "validateOtp (s(email \<mapsto> \<lparr>code = c, createdAt = t0, attempts = 2\<rparr>)) email c3 t3 =
      (Failure Max_attempts, s(email \<mapsto> \<lparr>code = c, createdAt = t0, attempts = 3\<rparr>))"
    using assms(4,8)
    by (subst validateOtp_mismatch [where r = "\<lparr>code = c, createdAt = t0, attempts = 2\<rparr>"])
      (auto simp add: OTP_EXPIRY_MS_def MAX_ATTEMPTS_def)
  have fourth: "validateOtp (s(email \<mapsto> \<lparr>code = c, createdAt = t0, attempts = 3\<rparr>)) email c4 t4 =
      (Failure Max_attempts, s(email \<mapsto> \<lparr>code = c, createdAt = t0, attempts = 3\<rparr>))"
    using assms(9)
    by (subst validateOtp_locked [where r = "\<lparr>code = c, createdAt = t0, attempts = 3\<rparr>"])
      (auto simp add: OTP_EXPIRY_MS_def MAX_ATTEMPTS_def)
  from first second third fourth show ?thesis by simp
qed

lemma replicate_numeral: "replicate (numeral k) x = x # replicate (pred_numeral k) x"
  by (simp add: numeral_eq_Suc)

lemmas eval_defs = generateOtp_eq createRandomCode_def padStart_def toString_def js_def
  decimal.simps OTP_LENGTH_def trim_def isWhiteSpace_def replicate_numeral new_Map_def

theorem three_wrong_codes_lock_witness:
  "validateOtp (new_Map(js ''a@x.com'' \<mapsto> \<lparr>code = js ''123456'', createdAt = 1000, attempts = 0\<rparr>))
     (js ''a@x.com'') (js ''000000'') 2000 =
     (Failure Incorrect,
      (new_Map(js ''a@x.com'' \<mapsto> \<lparr>code = js ''123456'', createdAt = 1000, attempts = 1\<rparr>)))
   \<and> validateOtp (new_Map(js ''a@x.com'' \<mapsto> \<lparr>code = js ''123456'', createdAt = 1000, attempts = 1\<rparr>))
     (js ''a@x.com'') [] 3000 =
     (Failure Incorrect,
      (new_Map(js ''a@x.com'' \<mapsto> \<lparr>code = js ''123456'', createdAt = 1000, attempts = 2\<rparr>)))
   \<and> validateOtp (new_Map(js ''a@x.com'' \<mapsto> \<lparr>code = js ''123456'', createdAt = 1000, attempts = 2\<rparr>))
     (js ''a@x.com'') (js ''12345'') 4000 =
     (Failure Max_attempts,
      (new_Map(js ''a@x.com'' \<mapsto> \<lparr>code = js ''123456'', createdAt = 1000, attempts = 3\<rparr>)))
   \<and> validateOtp (new_Map(js ''a@x.com'' \<mapsto> \<lparr>code = js ''123456'', createdAt = 1000, attempts = 3\<rparr>))
     (js ''a@x.com'') (js ''654321'') 61000 =
     (Failure Max_attempts,
      (new_Map(js ''a@x.com'' \<mapsto> \<lparr>code = js ''123456'', createdAt = 1000, attempts = 3\<rparr>)))"
  using three_wrong_codes_lock
    [of new_Map "js ''a@x.com''" 123456 1000 "js ''123456''"
        "(new_Map(js ''a@x.com'' \<mapsto> \<lparr>code = js ''123456'', createdAt = 1000, attempts = 0\<rparr>))"
        "js ''000000''" "[]" "js ''12345''" "js ''654321''" 2000 3000 4000 61000]
  by (simp add: eval_defs)

text \<open>
  C3. A record holding a generated code, not expired and with fewer than three failed
  attempts, validated with exactly its stored code: the answer is \<open>success\<close> and the
  record is deleted, so that the same call repeated, at any later moment, is answered
  \<open>no_otp\<close>.
\<close>

theorem correct_code_single_use:
  assumes "store email = Some r"
    and "code r = createRandomCode raw"
    and "attempts r < 3"
    and "now - createdAt r \<le> 60000"
  shows "validateOtp store email (code r) now = (Success, store(email := None))
       \<and> validateOtp (store(email := None)) email (code r) later =
           (Failure No_otp, store(email := None))"
proof -
  from assms(2) have "code r = trim (code r)"
    by (simp add: trim_createRandomCode)
  with assms(1,3,4)
  have "validateOtp store email (code r) now = (Success, store(email := None))"
    by (intro validateOtp_match) (simp_all add: OTP_EXPIRY_MS_def MAX_ATTEMPTS_def)
  moreover have "validateOtp (store(email := None)) email (code r) later =
      (Failure No_otp, store(email := None))"
    by (rule validateOtp_absent) simp
  ultimately show ?thesis by simp
qed

theorem correct_code_single_use_witness:
  "validateOtp (new_Map(js ''a@x.com'' \<mapsto> \<lparr>code = js ''004217'', createdAt = 1000, attempts = 2\<rparr>))
     (js ''a@x.com'') (js ''004217'') 61000 = (Success, new_Map)
   \<and> validateOtp new_Map (js ''a@x.com'') (js ''004217'') 61000 = (Failure No_otp, new_Map)"
  using correct_code_single_use
    [of "(new_Map(js ''a@x.com'' \<mapsto> \<lparr>code = js ''004217'', createdAt = 1000, attempts = 2\<rparr>))"
        "js ''a@x.com''" "\<lparr>code = js ''004217'', createdAt = 1000, attempts = 2\<rparr>"
        4217 61000 61000]
  by (simp add: eval_defs)

section \<open>Expiry\<close>

text \<open>
  C4, as the code has it. A record created exactly 60,000 ms ago is not yet expired: the
  test is \<open>now - createdAt > 60000\<close>, so the stored code is still accepted at that moment.
\<close>

theorem validateOtp_at_60000_ms_accepts:
  "(61000::int) - 1000 \<ge> 60000
   \<and> validateOtp (snd (generateOtp new_Map (js ''a@x.com'') 123456 1000))
        (js ''a@x.com'') (fst (generateOtp new_Map (js ''a@x.com'') 123456 1000)) 61000
       = (Success, new_Map)"
  by (simp add: eval_defs validateOtp_def OTP_EXPIRY_MS_def MAX_ATTEMPTS_def)

text \<open>
  C4, amended. A record created more than 60,000 ms before the validation is answered
  \<open>expired\<close> for every candidate, the stored code included, and is removed: the next
  validation for that email, with any candidate at any time, is answered \<open>no_otp\<close>.
\<close>

theorem validateOtp_expired_removes:
  assumes "store email = Some r"
    and "now - createdAt r > 60000"
  shows "validateOtp store email cand now = (Failure Expired, store(email := None))
       \<and> validateOtp store email (code r) now = (Failure Expired, store(email := None))
       \<and> validateOtp (store(email := None)) email cand' later =
           (Failure No_otp, store(email := None))"
  using assms
  by (simp add: validateOtp_expired validateOtp_absent OTP_EXPIRY_MS_def)

theorem validateOtp_expired_removes_witness:
  "validateOtp (new_Map(js ''a@x.com'' \<mapsto> \<lparr>code = js ''123456'', createdAt = 1000, attempts = 0\<rparr>))
     (js ''a@x.com'') (js ''123456'') 61001 = (Failure Expired, new_Map)
   \<and> validateOtp new_Map (js ''a@x.com'') (js ''123456'') 61002 = (Failure No_otp, new_Map)"
  using validateOtp_expired_removes
    [of "(new_Map(js ''a@x.com'' \<mapsto> \<lparr>code = js ''123456'', createdAt = 1000, attempts = 0\<rparr>))"
        "js ''a@x.com''" "\<lparr>code = js ''123456'', createdAt = 1000, attempts = 0\<rparr>"
        61001 "js ''123456''" "js ''123456''" 61002]
  by (simp add: new_Map_def)

section \<open>Resend\<close>

text \<open>
  C5, as the code has it. Nothing keeps the second draw from repeating the first: when
  both calls of \<open>generateOtp\<close> draw 123456, the first code is the second code and is
  accepted after the resend.
\<close>

theorem resend_same_draw_accepts_first_code:
  "fst (validateOtp
         (snd (generateOtp (snd (generateOtp new_Map (js ''a@x.com'') 123456 1000))
                 (js ''a@x.com'') 123456 2000))
         (js ''a@x.com'')
         (fst (generateOtp new_Map (js ''a@x.com'') 123456 1000))
         3000) = Success"
  by (simp add: eval_defs validateOtp_def OTP_EXPIRY_MS_def MAX_ATTEMPTS_def)

text \<open>
  C5, amended. After two calls of \<open>generateOtp\<close> for one email, the second of which
  returned a code different from the first, validating the first code never succeeds:
  the answer is \<open>expired\<close> or \<open>incorrect\<close>, since the record of the second call has
  replaced the first.
\<close>

theorem resend_invalidates_first_code:
  assumes "generateOtp s0 email raw1 t1 = (c1, s1)"
    and "generateOtp s1 email raw2 t2 = (c2, s2)"
    and "c1 \<noteq> c2"
  shows "fst (validateOtp s2 email c1 now) \<noteq> Success
       \<and> fst (validateOtp s2 email c1 now) =
           Failure (if now - t2 > 60000 then Expired else Incorrect)"
proof -
  from assms(1) have c1: "c1 = createRandomCode raw1"
    by (auto simp add: generateOtp_eq)
  from assms(2) have s2: "s2 email = Some \<lparr>code = c2, createdAt = t2, attempts = 0\<rparr>"
    by (auto simp add: generateOtp_eq)
  from c1 have "trim c1 = c1"
    by (simp add: trim_createRandomCode)
  with assms(3) s2 show ?thesis
    by (simp add: validateOtp_def OTP_EXPIRY_MS_def MAX_ATTEMPTS_def)
qed

theorem resend_invalidates_first_code_witness:
  "fst (validateOtp
         (new_Map(js ''a@x.com'' \<mapsto> \<lparr>code = js ''654321'', createdAt = 2000, attempts = 0\<rparr>))
         (js ''a@x.com'') (js ''123456'') 3000) \<noteq> Success
   \<and> fst (validateOtp
         (new_Map(js ''a@x.com'' \<mapsto> \<lparr>code = js ''654321'', createdAt = 2000, attempts = 0\<rparr>))
         (js ''a@x.com'') (js ''123456'') 3000) = Failure Incorrect"
  using resend_invalidates_first_code
    [of new_Map "js ''a@x.com''" 123456 1000 "js ''123456''"
        "new_Map(js ''a@x.com'' \<mapsto> \<lparr>code = js ''123456'', createdAt = 1000, attempts = 0\<rparr>)"
        654321 2000 "js ''654321''"
        "new_Map(js ''a@x.com'' \<mapsto> \<lparr>code = js ''654321'', createdAt = 2000, attempts = 0\<rparr>)"
        3000]
  by (simp add: eval_defs)

section \<open>Malformed candidates\<close>

lemma length_decimal_le: "n < 10 ^ Suc k \<Longrightarrow> length (decimal n) \<le> Suc k"
proof (induction k arbitrary: n)
  case 0
  then show ?case by (subst decimal.simps) simp
next
  case (Suc k)
  show ?case
  proof (cases "n < 10")
    case True
    then show ?thesis by (subst decimal.simps) simp
  next
    case False
    from Suc.prems have "n < 10 ^ Suc k * 10" by (simp add: mult.commute)
    then have "n div 10 < 10 ^ Suc k" by (rule less_mult_imp_div_less)
    then have "length (decimal (n div 10)) \<le> Suc k" by (rule Suc.IH)
    with False show ?thesis by (subst decimal.simps) simp
  qed
qed

lemma length_concat_replicate_single: "length (concat (replicate m [x])) = m"
  by (induction m) simp_all

lemma length_createRandomCode:
  assumes "raw < 1000000"
  shows "length (createRandomCode raw) = 6"
proof -
  from assms have "raw < 10 ^ Suc 5" by simp
  then have "length (decimal raw) \<le> Suc 5" by (rule length_decimal_le)
  then show ?thesis
    by (simp add: createRandomCode_def padStart_def toString_def OTP_LENGTH_def js_def
        length_concat_replicate_single)
qed

lemma validateOtp_outcome:
  "fst (validateOtp store email cand now) =
     (case store email of
        None \<Rightarrow> Failure No_otp
      | Some r \<Rightarrow>
          if now - createdAt r > 60000 then Failure Expired
          else if attempts r \<ge> 3 then Failure Max_attempts
          else if code r = trim cand then Success
          else if attempts r + 1 \<ge> 3 then Failure Max_attempts
          else Failure Incorrect)"
  by (simp add: validateOtp_def Let_def OTP_EXPIRY_MS_def MAX_ATTEMPTS_def split: option.splits)

text \<open>
  C7. A record holding a generated code, not expired and not locked, validated with a
  candidate that is malformed (after trimming it is not six characters long, or has a
  character that is no digit) or otherwise differs from the stored code: the call is an
  ordinary mismatch. The counter goes up by one and the answer is \<open>incorrect\<close>, or
  \<open>max_attempts\<close> when the counter reaches three; so it is for the empty candidate.
  Every call, whatever its arguments, returns the one of the five outcomes that the
  ordered checks select.
\<close>

theorem malformed_candidate_is_mismatch:
  assumes "store email = Some r"
    and "code r = createRandomCode raw" and "raw < 1000000"
    and "now - createdAt r \<le> 60000"
    and "attempts r < 3"
    and "length (trim cand) \<noteq> 6 \<or> (\<exists>c \<in> set (trim cand). c < 48 \<or> 57 < c)
         \<or> trim cand \<noteq> code r"
  shows "validateOtp store email cand now =
           (Failure (if attempts r + 1 \<ge> 3 then Max_attempts else Incorrect),
            store(email \<mapsto> r\<lparr>attempts := attempts r + 1\<rparr>))
       \<and> validateOtp store email [] now =
           (Failure (if attempts r + 1 \<ge> 3 then Max_attempts else Incorrect),
            store(email \<mapsto> r\<lparr>attempts := attempts r + 1\<rparr>))
       \<and> fst (validateOtp store' email' cand' now') =
           (case store' email' of
              None \<Rightarrow> Failure No_otp
            | Some r' \<Rightarrow>
                if now' - createdAt r' > 60000 then Failure Expired
                else if attempts r' \<ge> 3 then Failure Max_attempts
                else if code r' = trim cand' then Success
                else if attempts r' + 1 \<ge> 3 then Failure Max_attempts
                else Failure Incorrect)"
proof -
  have mismatch: "validateOtp store email x now =
      (Failure (if attempts r + 1 \<ge> 3 then Max_attempts else Incorrect),
       store(email \<mapsto> r\<lparr>attempts := attempts r + 1\<rparr>))" if "code r \<noteq> trim x" for x
    using assms(1,4,5) that
    by (subst validateOtp_mismatch [where r = r])
      (simp_all add: OTP_EXPIRY_MS_def MAX_ATTEMPTS_def)
  from assms(2,3) have len: "length (code r) = 6"
    by (simp add: length_createRandomCode)
  from assms(2) have digits: "\<forall>c \<in> set (code r). 48 \<le> c \<and> c \<le> 57"
    by (auto dest: createRandomCode_digits)
  from assms(6) len digits have "code r \<noteq> trim cand"
    by (metis not_le)
  moreover from len have "code r \<noteq> trim []"
    by (auto simp add: trim_def)
  ultimately show ?thesis
    by (simp only: mismatch validateOtp_outcome simp_thms)
qed

theorem malformed_candidate_is_mismatch_witness:
  "validateOtp
     (new_Map(js ''a@x.com'' \<mapsto> \<lparr>code = js ''004217'', createdAt = 1000, attempts = 0\<rparr>))
     (js ''a@x.com'') (js ''12'') 5000 =
     (Failure Incorrect,
      new_Map(js ''a@x.com'' \<mapsto> \<lparr>code = js ''004217'', createdAt = 1000, attempts = 1\<rparr>))
   \<and> validateOtp
     (new_Map(js ''a@x.com'' \<mapsto> \<lparr>code = js ''004217'', createdAt = 1000, attempts = 0\<rparr>))
     (js ''a@x.com'') [] 5000 =
     (Failure Incorrect,
      new_Map(js ''a@x.com'' \<mapsto> \<lparr>code = js ''004217'', createdAt = 1000, attempts = 1\<rparr>))
   \<and> validateOtp
     (new_Map(js ''a@x.com'' \<mapsto> \<lparr>code = js ''004217'', createdAt = 1000, attempts = 2\<rparr>))
     (js ''a@x.com'') (js '' 00421x '') 61000 =
     (Failure Max_attempts,
      new_Map(js ''a@x.com'' \<mapsto> \<lparr>code = js ''004217'', createdAt = 1000, attempts = 3\<rparr>))"
  using malformed_candidate_is_mismatch
    [of "new_Map(js ''a@x.com'' \<mapsto> \<lparr>code = js ''004217'', createdAt = 1000, attempts = 0\<rparr>)"
        "js ''a@x.com''" "\<lparr>code = js ''004217'', createdAt = 1000, attempts = 0\<rparr>"
        4217 5000 "js ''12''" new_Map "[]" "[]" 0]
    malformed_candidate_is_mismatch
    [of "new_Map(js ''a@x.com'' \<mapsto> \<lparr>code = js ''004217'', createdAt = 1000, attempts = 2\<rparr>)"
        "js ''a@x.com''" "\<lparr>code = js ''004217'', createdAt = 1000, attempts = 2\<rparr>"
        4217 61000 "js '' 00421x ''" new_Map "[]" "[]" 0]
  by (simp add: eval_defs)

section \<open>Countdown\<close>

lemma ceil_div_ceiling: "ceil_div a b = \<lceil>real_of_int a / real_of_int b\<rceil>"
  by (simp add: ceil_div_def ceiling_divide_eq_div)

lemma ceil_div_pos: "0 < a \<Longrightarrow> 0 < b \<Longrightarrow> 0 < ceil_div a b"
  by (simp add: ceil_div_ceiling)

text \<open>
  C6. \<open>getRemainingSeconds\<close> returns the store it was given. Its value is never negative;
  it is 0 when the email has no record or the record is expired (more than 60,000 ms
  old), and otherwise the ceiling of \<open>(60000 - (now - createdAt)) / 1000\<close>.
\<close>

theorem getRemainingSeconds_value:
  "snd (getRemainingSeconds store email now) = store
   \<and> 0 \<le> fst (getRemainingSeconds store email now)
   \<and> fst (getRemainingSeconds store email now) =
       (case store email of
          None \<Rightarrow> 0
        | Some r \<Rightarrow>
            if now - createdAt r > 60000 then 0
            else \<lceil>real_of_int (60000 - (now - createdAt r)) / 1000\<rceil>)"
proof (cases "store email")
  case None
  then show ?thesis by (simp add: getRemainingSeconds_def)
next
  case (Some r)
  show ?thesis
  proof (cases "OTP_EXPIRY_MS - (now - createdAt r) > 0")
    case True
    with ceil_div_pos [of "OTP_EXPIRY_MS - (now - createdAt r)" 1000]
    have "0 < ceil_div (OTP_EXPIRY_MS - (now - createdAt r)) 1000" by simp
    with Some True show ?thesis
      using ceil_div_ceiling [of "OTP_EXPIRY_MS - (now - createdAt r)" 1000]
      by (simp add: getRemainingSeconds_def Let_def OTP_EXPIRY_MS_def)
  next
    case False
    then have "now - createdAt r > 60000 \<or> now - createdAt r = 60000"
      by (auto simp add: OTP_EXPIRY_MS_def)
    with Some False show ?thesis
      by (auto simp add: getRemainingSeconds_def Let_def OTP_EXPIRY_MS_def)
  qed
qed

lemma getRemainingSeconds_mono:
  assumes "now \<le> later"
  shows "fst (getRemainingSeconds store email later) \<le> fst (getRemainingSeconds store email now)"
proof (cases "store email")
  case None
  then show ?thesis by (simp add: getRemainingSeconds_def)
next
  case (Some r)
  have "- ((later - createdAt r - OTP_EXPIRY_MS) div 1000)
      \<le> - ((now - createdAt r - OTP_EXPIRY_MS) div 1000)"
    using assms by (simp add: zdiv_mono1)
  moreover have "OTP_EXPIRY_MS - (now - createdAt r) > 0 \<Longrightarrow>
      0 \<le> ceil_div (OTP_EXPIRY_MS - (now - createdAt r)) 1000"
    using ceil_div_pos [of "OTP_EXPIRY_MS - (now - createdAt r)" 1000] by simp
  ultimately show ?thesis
    using Some assms by (auto simp add: getRemainingSeconds_def Let_def ceil_div_def algebra_simps)
qed

section \<open>The attempt counter stays within its bounds\<close>

lemma attempts_bounded_upd:
  assumes "attempts_bounded store" and "0 \<le> attempts r" and "attempts r \<le> MAX_ATTEMPTS"
  shows "attempts_bounded (store(email \<mapsto> r))"
  unfolding attempts_bounded_def
proof
  fix r' assume "r' \<in> ran (store(email \<mapsto> r))"
  then obtain k where "(store(email \<mapsto> r)) k = Some r'"
    by (auto simp add: ran_def)
  then have "r' = r \<or> r' \<in> ran store"
    by (cases "k = email") (auto simp add: ran_def)
  with assms show "0 \<le> attempts r' \<and> attempts r' \<le> MAX_ATTEMPTS"
    by (auto simp add: attempts_bounded_def)
qed

lemma attempts_bounded_del:
  assumes "attempts_bounded store"
  shows "attempts_bounded (store(email := None))"
  unfolding attempts_bounded_def
proof
  fix r' assume "r' \<in> ran (store(email := None))"
  then obtain k where "(store(email := None)) k = Some r'"
    by (auto simp add: ran_def)
  then have "r' \<in> ran store"
    by (cases "k = email") (auto simp add: ran_def)
  with assms show "0 \<le> attempts r' \<and> attempts r' \<le> MAX_ATTEMPTS"
    by (auto simp add: attempts_bounded_def)
qed

lemma attempts_bounded_lookup:
  "attempts_bounded store \<Longrightarrow> store email = Some r \<Longrightarrow>
     0 \<le> attempts r \<and> attempts r \<le> MAX_ATTEMPTS"
  by (auto simp add: attempts_bounded_def ran_def)

lemma attempts_bounded_new: "attempts_bounded new_Map"
  by (simp add: attempts_bounded_def new_Map_def)

lemma attempts_bounded_generateOtp:
  "attempts_bounded store \<Longrightarrow> attempts_bounded (snd (generateOtp store email raw now))"
  by (simp add: generateOtp_eq attempts_bounded_upd MAX_ATTEMPTS_def)

lemma attempts_bounded_validateOtp:
  assumes "attempts_bounded store"
  shows "attempts_bounded (snd (validateOtp store email cand now))"
proof (cases "store email")
  case None
  with assms show ?thesis by (simp add: validateOtp_def)
next
  case (Some r)
  from assms Some have r: "0 \<le> attempts r" "attempts r \<le> MAX_ATTEMPTS"
    by (auto dest: attempts_bounded_lookup)
  have "attempts r < MAX_ATTEMPTS \<Longrightarrow>
      attempts_bounded (store(email \<mapsto> r\<lparr>attempts := attempts r + 1\<rparr>))"
    using assms r by (intro attempts_bounded_upd) simp_all
  with assms Some show ?thesis
    by (auto simp add: validateOtp_def Let_def attempts_bounded_del)
qed

text \<open>
  C10. If every record of the store has \<open>0 \<le> attempts \<le> 3\<close>, so has every record of the
  store after any one public call (\<open>generateOtp\<close>, \<open>validateOtp\<close>,
  \<open>getRemainingSeconds\<close>, \<open>getRemainingAttempts\<close>, \<open>clearOtp\<close>); the store of a new
  manager is empty, so the bound holds after any sequence of calls.
\<close>

theorem attempts_bounded_preserved:
  assumes "attempts_bounded store"
  shows "attempts_bounded (call c store) \<and> attempts_bounded (fold call cs new_Map)"
proof -
  have step: "attempts_bounded (call c s)" if "attempts_bounded s" for c s
  proof (cases c)
    case (GenerateOtp email raw now)
    with that show ?thesis by (simp add: attempts_bounded_generateOtp)
  next
    case (ValidateOtp email cand now)
    with that show ?thesis by (simp add: attempts_bounded_validateOtp)
  next
    case (GetRemainingSeconds email now)
    with that show ?thesis
      by (simp add: getRemainingSeconds_def Let_def split: option.splits)
  next
    case (GetRemainingAttempts email)
    with that show ?thesis
      by (simp add: getRemainingAttempts_def split: option.splits)
  next
    case (ClearOtp email)
    with that show ?thesis by (simp add: clearOtp_def attempts_bounded_del)
  qed
  have "attempts_bounded (fold call cs s)" if "attempts_bounded s" for s
    using that by (induction cs arbitrary: s) (simp_all add: step)
  with assms step attempts_bounded_new show ?thesis by simp
qed

theorem attempts_bounded_preserved_witness:
  "attempts_bounded
     (new_Map(js ''a@x.com'' \<mapsto> \<lparr>code = js ''123456'', createdAt = 1000, attempts = 2\<rparr>))
   \<and> attempts_bounded
     (call (ValidateOtp (js ''a@x.com'') (js ''000000'') 2000)
        (new_Map(js ''a@x.com'' \<mapsto> \<lparr>code = js ''123456'', createdAt = 1000, attempts = 2\<rparr>)))
   \<and> attempts (the (call (ValidateOtp (js ''a@x.com'') (js ''000000'') 2000)
        (new_Map(js ''a@x.com'' \<mapsto> \<lparr>code = js ''123456'', createdAt = 1000, attempts = 2\<rparr>))
        (js ''a@x.com''))) = 3"
proof -
  have h: "attempts_bounded
     (new_Map(js ''a@x.com'' \<mapsto> \<lparr>code = js ''123456'', createdAt = 1000, attempts = 2\<rparr>))"
    by (simp add: attempts_bounded_def new_Map_def MAX_ATTEMPTS_def)
  have "attempts (the (call (ValidateOtp (js ''a@x.com'') (js ''000000'') 2000)
        (new_Map(js ''a@x.com'' \<mapsto> \<lparr>code = js ''123456'', createdAt = 1000, attempts = 2\<rparr>))
        (js ''a@x.com''))) = 3"
    by (simp add: eval_defs validateOtp_def OTP_EXPIRY_MS_def MAX_ATTEMPTS_def)
  with h attempts_bounded_preserved [OF h, of "ValidateOtp (js ''a@x.com'') (js ''000000'') 2000" "[]"]
  show ?thesis by simp
qed

section \<open>Formatting elapsed time\<close>

lemma decimal_small: "n < 10 \<Longrightarrow> decimal n = [48 + n]"
  by (subst decimal.simps) simp

lemma decimal_large: "\<not> n < 10 \<Longrightarrow> decimal n = decimal (n div 10) @ [48 + n mod 10]"
  by (subst decimal.simps) simp

lemma length_decimal_large: "\<not> n < 10 \<Longrightarrow> 2 \<le> length (decimal n)"
proof -
  assume "\<not> n < 10"
  moreover have "Suc 0 \<le> length (decimal (n div 10))"
    by (cases "decimal (n div 10)") (simp_all add: decimal_nonempty)
  ultimately show ?thesis
    by (simp add: decimal_large)
qed

lemma pad2_decimal:
  "padStart 2 (js ''0'') (toString (int n)) = (if n < 100 then two_digits n else decimal n)"
proof -
  consider "n < 10" | "\<not> n < 10" "n < 100" | "\<not> n < 100" by blast
  then show ?thesis
  proof cases
    case 1
    then show ?thesis
      by (simp add: padStart_def toString_def js_def decimal_small two_digits_def)
  next
    case 2
    then have "n div 10 < 10" by simp
    with 2 show ?thesis
      by (simp add: padStart_def toString_def js_def decimal_large decimal_small two_digits_def)
  next
    case 3
    then have "2 \<le> length (decimal n)"
      by (intro length_decimal_large) simp
    with 3 show ?thesis
      by (simp add: padStart_def toString_def)
  qed
qed

lemma js_rem_nonneg: "0 \<le> a \<Longrightarrow> 0 < b \<Longrightarrow> js_rem a b = a mod b"
  by (cases "a = 0") (simp_all add: js_rem_def)

lemma formatElapsed_nonneg:
  assumes "0 \<le> ms"
  shows "formatElapsed ms =
     (if nat (ms div 1000) div 60 < 100 then two_digits (nat (ms div 1000) div 60)
      else decimal (nat (ms div 1000) div 60))
     @ js '':'' @ two_digits (nat (ms div 1000) mod 60)"
proof -
  define secs where "secs = nat (ms div 1000)"
  from assms have total: "ms div 1000 = int secs"
    by (simp add: secs_def pos_imp_zdiv_nonneg_iff)
  have minutes: "int secs div 60 = int (secs div 60)"
    by (simp add: zdiv_int)
  have seconds: "js_rem (int secs) 60 = int (secs mod 60)"
    by (simp add: js_rem_nonneg zmod_int)
  have "secs mod 60 < 100"
    by (rule less_trans [OF mod_less_divisor]) simp_all
  then have "padStart 2 (js ''0'') (toString (int (secs mod 60))) = two_digits (secs mod 60)"
    by (simp add: pad2_decimal)
  then show ?thesis
    unfolding formatElapsed_def Let_def total minutes seconds pad2_decimal secs_def [symmetric]
    by simp
qed

lemmas timer_defs = startTimer_def stopTimer_def tick_def setInterval_def clearInterval_def
  truthy_def saveSessionStart_def clearSession_def mounted_def

lemma tick_elapsed:
  "sessionStartRef t = Some a \<Longrightarrow> elapsed (tick now t) = formatElapsed (now - a)"
  by (simp add: tick_def)

lemma formatElapsed_eq_mm_ss: "0 \<le> ms \<Longrightarrow> formatElapsed ms = mm_ss ms"
  by (simp add: formatElapsed_nonneg mm_ss_def Let_def)

text \<open>
  C9, as the code has it. Zero-padding to two characters never shortens a number: after
  100 minutes the minutes take three digits. A negative difference, which a tick computes
  when the clock has been set back behind the anchor, is printed with its minus signs.
\<close>

theorem formatElapsed_not_two_digits:
  "formatElapsed 6000000 = js ''100:00'' \<and> formatElapsed (- 1) = js ''-1:-1''"
  by (simp add: formatElapsed_def js_rem_def padStart_def toString_def decimal.simps js_def)

text \<open>
  C9, amended. For an elapsed time of \<open>ms \<ge> 0\<close> milliseconds \<open>formatElapsed\<close> gives the
  minutes and the seconds of \<open>ms div 1000\<close> whole seconds, joined by a colon: the seconds
  as two digits, the minutes zero-padded to two digits, which are exactly two below 100
  minutes and all the digits of the number from there on. A tick of a timer anchored at
  \<open>a\<close> displays this string for \<open>now - a\<close>. So 65,000 ms after a start the tick displays
  \<open>01:05\<close>, and \<open>stopTimer\<close> clears the anchor and sets the display back to \<open>00:00\<close>.
\<close>

theorem timer_display_mm_ss:
  assumes "0 \<le> ms"
    and "sessionStartRef t = Some a" and "0 \<le> now - a"
  shows "formatElapsed ms = mm_ss ms
       \<and> (ms < 6000000 \<longrightarrow>
            formatElapsed ms =
              two_digits (nat (ms div 1000) div 60) @ js '':''
              @ two_digits (nat (ms div 1000) mod 60))
       \<and> elapsed (tick now t) = mm_ss (now - a)
       \<and> elapsed (tick (start + 65000) (startTimer None start start_tick mounted)) = js ''01:05''
       \<and> elapsed (stopTimer t') = js ''00:00''
       \<and> sessionStartRef (stopTimer t') = None"
proof -
  have fmt: "formatElapsed ms = mm_ss ms"
    using assms(1) by (rule formatElapsed_eq_mm_ss)
  have short: "formatElapsed ms =
      two_digits (nat (ms div 1000) div 60) @ js '':'' @ two_digits (nat (ms div 1000) mod 60)"
    if "ms < 6000000"
  proof -
    from that assms(1) have "ms div 1000 < 6000" by simp
    then have "nat (ms div 1000) div 60 < 100" by simp
    then show ?thesis
      by (simp add: formatElapsed_nonneg [OF assms(1)])
  qed
  have shown: "elapsed (tick now t) = mm_ss (now - a)"
    using assms(2,3) by (simp add: tick_elapsed formatElapsed_eq_mm_ss)
  have anchor: "sessionStartRef (startTimer None start start_tick mounted) = Some start"
    by (simp add: timer_defs Let_def)
  have "formatElapsed 65000 = js ''01:05''"
    by (simp add: formatElapsed_nonneg two_digits_def js_def)
  with anchor
  have later: "elapsed (tick (start + 65000) (startTimer None start start_tick mounted))
      = js ''01:05''"
    by (simp add: tick_elapsed)
  have stopped: "elapsed (stopTimer t') = js ''00:00'' \<and> sessionStartRef (stopTimer t') = None"
    by (simp add: stopTimer_def clearSession_def Let_def)
  from fmt short shown later stopped show ?thesis by simp
qed

theorem timer_display_mm_ss_witness:
  "formatElapsed 754321 = js ''12:34''
   \<and> formatElapsed 999 = js ''00:00''
   \<and> elapsed (tick 759321 (startTimer None 5000 5001 mounted)) = js ''12:34''
   \<and> elapsed (tick 30005000 (startTimer (Some 5000) 9000 9001 mounted)) = js ''500:00''"
proof -
  have a: "sessionStartRef (startTimer None 5000 5001 mounted) = Some 5000"
    by (simp add: timer_defs Let_def)
  have b: "sessionStartRef (startTimer (Some 5000) 9000 9001 mounted) = Some 5000"
    by (simp add: timer_defs Let_def)
  from timer_display_mm_ss [of 754321 "startTimer None 5000 5001 mounted" 5000 759321, OF _ a]
    timer_display_mm_ss
      [of 999 "startTimer (Some 5000) 9000 9001 mounted" 5000 30005000, OF _ b]
  show ?thesis
    by (simp add: mm_ss_def two_digits_def js_def decimal.simps)
qed

section \<open>Starting twice\<close>

lemma startTimer_running:
  assumes "\<not> truthy (intervalRef t)"
  shows "intervalRef (startTimer persistedStart now now_tick t) = Some (Suc (last_id t))"
  using assms
  by (simp add: startTimer_def setInterval_def tick_def saveSessionStart_def Let_def
      split: option.splits)

text \<open>
  C8. On a running timer, one whose \<open>intervalRef\<close> holds the id of an interval task,
  \<open>startTimer\<close> changes nothing, with an anchor argument and without: the anchor, the
  display, the scheduled tasks and the storage requests issued are what they were.
\<close>

theorem startTimer_idempotent:
  assumes "intervalRef t = Some h" and "0 < h"
  shows "startTimer persistedStart now now_tick t = t
       \<and> sessionStartRef (startTimer persistedStart now now_tick t) = sessionStartRef t
       \<and> scheduled (startTimer persistedStart now now_tick t) = scheduled t
       \<and> storage_calls (startTimer persistedStart now now_tick t) = storage_calls t"
  using assms by (simp add: startTimer_def truthy_def)

theorem startTimer_idempotent_witness:
  "intervalRef (startTimer None 5000 5001 mounted) = Some 1
   \<and> startTimer (Some 99) 70000 70001 (startTimer None 5000 5001 mounted)
       = startTimer None 5000 5001 mounted
   \<and> startTimer None 70000 70001 (startTimer None 5000 5001 mounted)
       = startTimer None 5000 5001 mounted
   \<and> scheduled (startTimer None 70000 70001 (startTimer None 5000 5001 mounted)) = [1]
   \<and> storage_calls (startTimer None 70000 70001 (startTimer None 5000 5001 mounted))
       = [SetItem SESSION_KEY (js ''5000'')]"
proof -
  have h: "intervalRef (startTimer None 5000 5001 mounted) = Some 1"
    by (simp add: startTimer_running truthy_def mounted_def)
  have s: "scheduled (startTimer None 5000 5001 mounted) = [1]"
    by (simp add: timer_defs Let_def)
  have c: "storage_calls (startTimer None 5000 5001 mounted) = [SetItem SESSION_KEY (js ''5000'')]"
    by (simp add: timer_defs Let_def toString_def decimal.simps js_def)
  from h s c
    startTimer_idempotent [OF h, of "Some 99" 70000 70001]
    startTimer_idempotent [OF h, of None 70000 70001]
  show ?thesis by simp
qed

end
